theory Spec2Isabelle
  imports Complex_Main
begin

section \<open>JavaScript strings and arrays\<close>

text \<open>
  A JavaScript string is modelled as a \<^typ>\<open>string\<close>: one \<^typ>\<open>char\<close> stands for one
  UTF-16 code unit below 256, so \<open>length\<close> is the \<open>.length\<close> of the source and
  \<open>slice\<close> counts the same units. A request field that may be \<open>undefined\<close> is a
  \<^typ>\<open>string option\<close>; the empty string is the other falsy string value.
\<close>

definition slice_to :: "nat \<Rightarrow> 'a list \<Rightarrow> 'a list" where
  \<comment> \<open>\<open>xs.slice(0, n)\<close>\<close>
  "slice_to n xs = take n xs"

definition slice_last :: "nat \<Rightarrow> 'a list \<Rightarrow> 'a list" where
  \<comment> \<open>\<open>xs.slice(-n)\<close> for \<open>n > 0\<close>: the start index is \<open>max (length - n) 0\<close>\<close>
  "slice_last n xs = drop (length xs - n) xs"

definition or_else :: "string option \<Rightarrow> string \<Rightarrow> string" where
  \<comment> \<open>\<open>v || d\<close> on a value that is a string or \<open>undefined\<close>\<close>
  "or_else v d = (case v of None \<Rightarrow> d | Some s \<Rightarrow> if s = [] then d else s)"

definition falsy :: "string option \<Rightarrow> bool" where
  \<comment> \<open>\<open>!v\<close> on a value that is a string or \<open>undefined\<close>\<close>
  "falsy v = (case v of None \<Rightarrow> True | Some s \<Rightarrow> s = [])"

definition text_of :: "string option \<Rightarrow> string" where
  \<comment> \<open>the text of a field; used only where the field has passed the \<open>falsy\<close> check\<close>
  "text_of v = (case v of None \<Rightarrow> [] | Some s \<Rightarrow> s)"

section \<open>The Model Invoker (\<open>env.AI.run\<close>)\<close>

record PromptMessage =
  role :: string
  content :: string

record AiRequest =
  model :: string
  messages :: "PromptMessage list"
  max_tokens :: nat
  temperature :: rat

text \<open>
  \<open>Rejected\<close>: the call throws (or resolves to \<open>null\<close>/\<open>undefined\<close>, so that reading
  \<open>.response\<close> throws inside the same \<open>try\<close>). \<open>Resolved r\<close>: the call resolves to an
  object whose \<open>response\<close> field is the text \<open>r\<close>, \<open>None\<close> when the field is missing.
\<close>

datatype AiOutcome = Rejected | Resolved "string option"

definition llama :: string where
  \<open>llama = ''@cf/meta/llama-3.3-70b-instruct-fp8-fast''\<close>

section \<open>ChatSession (chatSession.ts)\<close>

record ChatMessage = PromptMessage +
  timestamp :: int

record SessionData =
  noteId :: string
  noteContext :: string
  lastActivity :: int

text \<open>
  The state of one Durable Object: the field \<open>this.sessionData\<close> and the three things
  its storage holds, the records under the keys \<open>sessionData\<close> and \<open>messages\<close> and the
  alarm. \<open>None\<close> is an absent key (\<open>storage.get\<close> gives \<open>undefined\<close>) or no alarm.
  Storage operations are taken to succeed.
\<close>

record ChatSession =
  sessionData :: "SessionData option"
  stored_sessionData :: "SessionData option"
  stored_messages :: "ChatMessage list option"
  alarm_time :: "int option"

datatype Body =
    Success
  | Failure string
  | ReplyHistory string "ChatMessage list"
  | Messages "ChatMessage list"

datatype Response = Response nat Body

definition twentyFourHours :: int where
  "twentyFourHours = 24 * 60 * 60 * 1000"

definition constructor :: "SessionData option \<Rightarrow> ChatMessage list option \<Rightarrow> int option \<Rightarrow> ChatSession" where
  \<comment> \<open>the object built over a given storage: the field is loaded from the key\<close>
  "constructor sd ms al =
     \<lparr>sessionData = sd, stored_sessionData = sd, stored_messages = ms, alarm_time = al\<rparr>"

definition getMessages :: "ChatSession \<Rightarrow> ChatMessage list" where
  "getMessages s = (case stored_messages s of None \<Rightarrow> [] | Some ms \<Rightarrow> ms)"

definition handleInit :: "string \<Rightarrow> string option \<Rightarrow> int \<Rightarrow> int \<Rightarrow> ChatSession \<Rightarrow> Response \<times> ChatSession" where
  \<comment> \<open>\<open>now1\<close>, \<open>now2\<close>: the two readings of \<open>Date.now()\<close>\<close>
  "handleInit nid ctx now1 now2 s =
     (let sd = \<lparr>noteId = nid, noteContext = or_else ctx [], lastActivity = now1\<rparr>;
          alarmTime = now2 + twentyFourHours
      in (Response 200 Success,
          s\<lparr>sessionData := Some sd, stored_sessionData := Some sd, alarm_time := Some alarmTime\<rparr>))"

definition systemPrompt :: "string \<Rightarrow> string" where
  \<open>systemPrompt ctx =
     ''You are Bob, a helpful AI study assistant. You help students understand their notes by answering questions, explaining concepts, and providing study guidance.\<newline>\<newline>Current note context:\<newline>''
     @ slice_to 4000 ctx
     @ ''\<newline>\<newline>Be concise, clear, and educational in your responses.''\<close>

definition promptEntry :: "ChatMessage \<Rightarrow> PromptMessage" where
  \<comment> \<open>the arrow function mapped over \<open>recentMessages\<close>\<close>
  "promptEntry m = \<lparr>role = role m, content = slice_to 2000 (content m)\<rparr>"

definition aiMessages :: "string \<Rightarrow> ChatMessage list \<Rightarrow> PromptMessage list" where
  "aiMessages ctx msgs =
     \<lparr>role = ''system'', content = systemPrompt ctx\<rparr> # map promptEntry (slice_last 10 msgs)"

definition chatRequest :: "string \<Rightarrow> ChatMessage list \<Rightarrow> AiRequest" where
  "chatRequest ctx msgs =
     \<lparr>model = llama, messages = aiMessages ctx msgs, max_tokens = 1024, temperature = 7 / 10\<rparr>"

text \<open>The readings of \<open>Date.now()\<close> in \<open>handleMessage\<close>, in the order of the source.\<close>

record MessageClock =
  at_context :: int
  at_user :: int
  at_reply :: int
  at_activity :: int

definition updateContext :: "string option \<Rightarrow> int \<Rightarrow> SessionData \<Rightarrow> SessionData" where
  \<comment> \<open>\<open>if (noteContext !== undefined) { ... }\<close>\<close>
  "updateContext ctx now sd =
     (case ctx of None \<Rightarrow> sd | Some c \<Rightarrow> sd\<lparr>noteContext := c, lastActivity := now\<rparr>)"

definition userMessage :: "string \<Rightarrow> int \<Rightarrow> ChatMessage" where
  "userMessage msg now = \<lparr>role = ''user'', content = msg, timestamp = now\<rparr>"

definition assistantMessage :: "string \<Rightarrow> int \<Rightarrow> ChatMessage" where
  "assistantMessage reply now = \<lparr>role = ''assistant'', content = reply, timestamp = now\<rparr>"

definition handleMessage ::
  "(AiRequest \<Rightarrow> AiOutcome) \<Rightarrow> string \<Rightarrow> string option \<Rightarrow> MessageClock \<Rightarrow> ChatSession
     \<Rightarrow> Response \<times> ChatSession" where
  "handleMessage ai msg ctx clk s =
     (case sessionData s of
        None \<Rightarrow> (Response 400 (Failure ''Session not initialized''), s)
      | Some sd0 \<Rightarrow>
          let sd = updateContext ctx (at_context clk) sd0;
              s1 = (case ctx of None \<Rightarrow> s
                    | Some c \<Rightarrow> s\<lparr>sessionData := Some sd, stored_sessionData := Some sd\<rparr>);
              msgs = getMessages s1 @ [userMessage msg (at_user clk)]
          in (case ai (chatRequest (noteContext sd) msgs) of
                Rejected \<Rightarrow> (Response 500 (Failure ''AI request failed''), s1)
              | Resolved r \<Rightarrow>
                  let reply = or_else r ''Sorry, I could not generate a response.'';
                      msgs2 = msgs @ [assistantMessage reply (at_reply clk)];
                      messagesToKeep = slice_last 50 msgs2;
                      sd2 = sd\<lparr>lastActivity := at_activity clk\<rparr>
                  in (Response 200 (ReplyHistory reply messagesToKeep),
                      s1\<lparr>stored_messages := Some messagesToKeep,
                         sessionData := Some sd2, stored_sessionData := Some sd2\<rparr>)))"

definition handleStoreMessage ::
  "string option \<Rightarrow> string option \<Rightarrow> int \<Rightarrow> int \<Rightarrow> ChatSession \<Rightarrow> Response \<times> ChatSession" where
  \<comment> \<open>\<open>now1\<close>: the message's timestamp, \<open>now2\<close>: the reading for \<open>lastActivity\<close>\<close>
  "handleStoreMessage r c now1 now2 s =
     (if falsy r \<or> falsy c then (Response 400 (Failure ''Missing role or content''), s)
      else
        let newMessage = \<lparr>role = text_of r, content = text_of c, timestamp = now1\<rparr>;
            messagesToKeep = slice_last 50 (getMessages s @ [newMessage]);
            s1 = s\<lparr>stored_messages := Some messagesToKeep\<rparr>
        in (Response 200 Success,
            (case sessionData s1 of None \<Rightarrow> s1
             | Some sd \<Rightarrow>
                 s1\<lparr>sessionData := Some (sd\<lparr>lastActivity := now2\<rparr>),
                    stored_sessionData := Some (sd\<lparr>lastActivity := now2\<rparr>)\<rparr>)))"

definition handleGetHistory :: "ChatSession \<Rightarrow> Response \<times> ChatSession" where
  "handleGetHistory s = (Response 200 (Messages (getMessages s)), s)"

definition handleClear :: "ChatSession \<Rightarrow> Response \<times> ChatSession" where
  "handleClear s = (Response 200 Success, s\<lparr>stored_messages := None\<rparr>)"

definition alarm :: "int \<Rightarrow> ChatSession \<Rightarrow> ChatSession" where
  \<comment> \<open>\<open>now\<close>: the reading of \<open>Date.now()\<close>\<close>
  "alarm now s =
     (case sessionData s of
        None \<Rightarrow> s
      | Some sd \<Rightarrow>
          let inactiveDuration = now - lastActivity sd in
          if inactiveDuration \<ge> twentyFourHours then s\<lparr>stored_messages := None\<rparr>
          else s\<lparr>alarm_time := Some (lastActivity sd + twentyFourHours)\<rparr>)"

subsection \<open>Sequences of calls\<close>







subsection \<open>Example sessions and invokers\<close>

definition example_data :: SessionData where
  "example_data = \<lparr>noteId = ''n1'', noteContext = ''photosynthesis'', lastActivity = 1000\<rparr>"

definition example_clock :: MessageClock where
  "example_clock = \<lparr>at_context = 2001, at_user = 2002, at_reply = 2003, at_activity = 2004\<rparr>"

definition twelve :: "ChatMessage list" where
  "twelve = map (\<lambda>(c, t). \<lparr>role = ''user'', content = c, timestamp = t\<rparr>)
     [(''m01'', 1), (''m02'', 2), (''m03'', 3), (''m04'', 4), (''m05'', 5), (''m06'', 6),
      (''m07'', 7), (''m08'', 8), (''m09'', 9), (''m10'', 10), (''m11'', 11), (''m12'', 12)]"



definition session_of :: "ChatMessage list option \<Rightarrow> ChatSession" where
  "session_of ms = constructor (Some example_data) ms (Some (1000 + twentyFourHours))"

definition rejecting :: "AiRequest \<Rightarrow> AiOutcome" where
  \<comment> \<open>an invoker that fails on every request\<close>
  "rejecting req = Rejected"

definition accepts_only :: "PromptMessage list \<Rightarrow> AiRequest \<Rightarrow> AiOutcome" where
  \<comment> \<open>an invoker that answers exactly one message list and fails on any other\<close>
  "accepts_only w req = (if messages req = w then Resolved (Some ''ok'') else Rejected)"

section \<open>JSON values and the JavaScript runtime\<close>

text \<open>
  What \<open>JSON.parse\<close> returns. A number is the value of a double; an object is the list of
  its own properties, each key once.
\<close>

datatype json =
    JNull
  | JBool bool
  | JNum rat
  | JStr string
  | JArr "json list"
  | JObj "(string \<times> json) list"

text \<open>
  The two built-ins the workflows rely on are parameters. \<open>parseArray\<close> is \<open>JSON.parse\<close>
  on a text that starts with an opening bracket (the only texts the workflows hand to
  it): it throws a SyntaxError (\<open>None\<close>) or returns an array (its elements).
  \<open>numberToString\<close> is the conversion of a number to text.
\<close>

record JS =
  parseArray :: "string \<Rightarrow> json list option"
  numberToString :: "rat \<Rightarrow> string"

datatype JsError = AiError | SyntaxError | TypeError

fun intercalate :: "'a list \<Rightarrow> 'a list list \<Rightarrow> 'a list" where
  "intercalate sep [] = []"
| "intercalate sep [x] = x"
| "intercalate sep (x # y # ys) = x @ sep @ intercalate sep (y # ys)"

text \<open>
  The conversion of a value to text, as \<open>join\<close> and template literals apply it. A parsed
  object that has a key \<open>toString\<close> holds a value there that is not callable, and the
  \<open>valueOf\<close> it has or inherits gives no primitive, so the conversion throws a
  TypeError; any other object gives \<open>[object Object]\<close>. An array is converted by
  \<open>join(",")\<close>, where \<open>null\<close> elements give the empty text; the first element that
  throws ends the conversion.
\<close>

fun toString :: "JS \<Rightarrow> json \<Rightarrow> JsError + string"
  and element_texts :: "JS \<Rightarrow> json list \<Rightarrow> JsError + string list" where
  \<open>toString js JNull = Inr ''null''\<close>
| \<open>toString js (JBool b) = Inr (if b then ''true'' else ''false'')\<close>
| \<open>toString js (JNum r) = Inr (numberToString js r)\<close>
| \<open>toString js (JStr s) = Inr s\<close>
| \<open>toString js (JArr xs) =
     (case element_texts js xs of Inl e \<Rightarrow> Inl e | Inr ts \<Rightarrow> Inr (intercalate '','' ts))\<close>
| \<open>toString js (JObj kvs) =
     (if ''toString'' \<in> set (map fst kvs) then Inl TypeError else Inr ''[object Object]'')\<close>
| \<open>element_texts js [] = Inr []\<close>
| \<open>element_texts js (x # xs) =
     (case (if x = JNull then Inr [] else toString js x) of
        Inl e \<Rightarrow> Inl e
      | Inr t \<Rightarrow> (case element_texts js xs of Inl e \<Rightarrow> Inl e | Inr ts \<Rightarrow> Inr (t # ts)))\<close>

definition join :: "JS \<Rightarrow> string \<Rightarrow> json list \<Rightarrow> JsError + string" where
  \<comment> \<open>\<open>xs.join(sep)\<close>\<close>
  "join js sep xs =
     (case element_texts js xs of Inl e \<Rightarrow> Inl e | Inr ts \<Rightarrow> Inr (intercalate sep ts))"

definition digit :: "nat \<Rightarrow> char" where
  "digit d = ''0123456789'' ! d"

fun decimal :: "nat \<Rightarrow> string" where
  \<comment> \<open>the text of a small non-negative integer, as a template literal prints it\<close>
  "decimal n = (if n < 10 then [digit n] else decimal (n div 10) @ [digit (n mod 10)])"

definition toLowerCase_unit :: "char \<Rightarrow> char" where
  "toLowerCase_unit c =
     (let n = (of_char c :: nat) in
      if (65 \<le> n \<and> n \<le> 90) \<or> (192 \<le> n \<and> n \<le> 222 \<and> n \<noteq> 215)
      then (case c of Char b0 b1 b2 b3 b4 b5 b6 b7 \<Rightarrow> Char b0 b1 b2 b3 b4 True b6 b7)
      else c)"

definition toLowerCase :: "string \<Rightarrow> string" where
  "toLowerCase s = map toLowerCase_unit s"

definition is_space :: "char \<Rightarrow> bool" where
  \<comment> \<open>white space and line terminators below 256\<close>
  "is_space c = (of_char c \<in> set [9, 10, 11, 12, 13, 32, 160 :: nat])"

definition trim :: "string \<Rightarrow> string" where
  "trim s = rev (dropWhile is_space (rev (dropWhile is_space s)))"

definition match_array :: "string \<Rightarrow> string option" where
  \<comment> \<open>\<open>s.match(/\[.*\]/s)\<close>: from the first opening bracket to the last closing bracket after it\<close>
  "match_array s =
     (let opened = dropWhile (\<lambda>c. c \<noteq> CHR ''['') s;
          closed = dropWhile (\<lambda>c. c \<noteq> CHR '']'') (rev opened)
      in if closed = [] then None else Some (rev closed))"

definition catch :: "JsError + 'a \<Rightarrow> 'a \<Rightarrow> JsError + 'a" where
  \<comment> \<open>\<open>try { body } catch (error) { return fallback }\<close>\<close>
  "catch body fallback = (case body of Inl e \<Rightarrow> Inr fallback | Inr v \<Rightarrow> Inr v)"

text \<open>
  In the workflows the Model Invoker is a service with a state of its own: a call takes
  the request and the state and gives the outcome and the next state.
\<close>

type_synonym 'w Invoker = "AiRequest \<Rightarrow> 'w \<Rightarrow> AiOutcome \<times> 'w"

definition request :: "string \<Rightarrow> string \<Rightarrow> nat \<Rightarrow> rat \<Rightarrow> AiRequest" where
  "request sys prompt limit temp =
     \<lparr>model = llama,
      messages = [\<lparr>role = ''system'', content = sys\<rparr>, \<lparr>role = ''user'', content = prompt\<rparr>],
      max_tokens = limit, temperature = temp\<rparr>"

section \<open>SummaryWorkflow (workflows/summaryWorkflow.ts)\<close>

record SummaryResult =
  summary :: string
  keyPoints :: "json list"
  topics :: "json list"

subsection \<open>extractTopics\<close>

definition extractTopics_request :: "string \<Rightarrow> string \<Rightarrow> AiRequest" where
  \<open>extractTopics_request txt title =
     request ''You are a study assistant that identifies key topics in educational notes. Return only valid JSON.''
       (''Analyze this note and identify 3-5 main topics or concepts:\<newline>\<newline>Title: '' @ title
        @ ''\<newline>Content:\<newline>'' @ slice_to 3000 txt
        @ ''\<newline>\<newline>Return ONLY a JSON array of topic strings, e.g., ["topic1", "topic2", "topic3"]'')
       200 (3 / 10)\<close>

definition extractTopics_try :: "JS \<Rightarrow> AiOutcome \<Rightarrow> JsError + json list" where
  \<open>extractTopics_try js out =
     (case out of
        Rejected \<Rightarrow> Inl AiError
      | Resolved r \<Rightarrow>
          (case match_array (or_else r ''[]'') of
             Some m \<Rightarrow> (case parseArray js m of None \<Rightarrow> Inl SyntaxError | Some v \<Rightarrow> Inr v)
           | None \<Rightarrow> Inr []))\<close>

definition extractTopics ::
  "JS \<Rightarrow> 'w Invoker \<Rightarrow> string \<Rightarrow> string \<Rightarrow> 'w \<Rightarrow> (JsError + json list) \<times> 'w" where
  "extractTopics js ai txt title w =
     (let (out, w1) = ai (extractTopics_request txt title) w
      in (catch (extractTopics_try js out) [JStr ''General''], w1))"

subsection \<open>generateSummary\<close>

definition generateSummary_request :: "string \<Rightarrow> string \<Rightarrow> string \<Rightarrow> AiRequest" where
  \<comment> \<open>\<open>joined\<close>: the value of \<open>topics.join(', ')\<close>\<close>
  \<open>generateSummary_request txt title joined =
     request ''You are a study assistant that creates clear, concise summaries of educational notes.''
       (''Generate a concise 2-3 paragraph summary of this note:\<newline>\<newline>Title: '' @ title
        @ ''\<newline>Main Topics: '' @ joined
        @ ''\<newline>Content:\<newline>'' @ slice_to 4000 txt
        @ ''\<newline>\<newline>Write a clear, concise summary that captures the essential information. Use proper formatting with markdown.'')
       400 (5 / 10)\<close>

definition generateSummary_try :: "AiOutcome \<Rightarrow> JsError + string" where
  \<open>generateSummary_try out =
     (case out of
        Rejected \<Rightarrow> Inl AiError
      | Resolved r \<Rightarrow> Inr (or_else r ''Unable to generate summary.''))\<close>

text \<open>
  The prompt, and with it \<open>topics.join(', ')\<close>, is evaluated before the \<open>try\<close>: a throw
  there is not caught and no call of the invoker is made.
\<close>

definition generateSummary ::
  "JS \<Rightarrow> 'w Invoker \<Rightarrow> string \<Rightarrow> string \<Rightarrow> json list \<Rightarrow> 'w \<Rightarrow> (JsError + string) \<times> 'w" where
  \<open>generateSummary js ai txt title tps w =
     (case join js '', '' tps of
        Inl e \<Rightarrow> (Inl e, w)
      | Inr joined \<Rightarrow>
          (let (out, w1) = ai (generateSummary_request txt title joined) w
           in (catch (generateSummary_try out) ''Error generating summary.'', w1)))\<close>

subsection \<open>extractKeyPoints\<close>

definition extractKeyPoints_request :: "string \<Rightarrow> string \<Rightarrow> AiRequest" where
  \<open>extractKeyPoints_request txt summ =
     request ''You are a study assistant that identifies key takeaways. Return only valid JSON.''
       (''Based on this note summary, extract 5-7 key points or takeaways:\<newline>\<newline>Summary:\<newline>'' @ summ
        @ ''\<newline>\<newline>Original Content (for context):\<newline>'' @ slice_to 2000 txt
        @ ''\<newline>\<newline>Return ONLY a JSON array of key point strings, e.g., ["point1", "point2", "point3"]'')
       300 (3 / 10)\<close>

definition extractKeyPoints_try :: "JS \<Rightarrow> AiOutcome \<Rightarrow> JsError + json list" where
  \<open>extractKeyPoints_try js out =
     (case out of
        Rejected \<Rightarrow> Inl AiError
      | Resolved r \<Rightarrow>
          (case match_array (or_else r ''[]'') of
             Some m \<Rightarrow> (case parseArray js m of None \<Rightarrow> Inl SyntaxError | Some v \<Rightarrow> Inr v)
           | None \<Rightarrow> Inr []))\<close>

definition extractKeyPoints ::
  "JS \<Rightarrow> 'w Invoker \<Rightarrow> string \<Rightarrow> string \<Rightarrow> 'w \<Rightarrow> (JsError + json list) \<times> 'w" where
  "extractKeyPoints js ai txt summ w =
     (let (out, w1) = ai (extractKeyPoints_request txt summ) w
      in (catch (extractKeyPoints_try js out) [], w1))"

subsection \<open>run\<close>

text \<open>
  \<open>run\<close> reads \<open>noteContent\<close> and \<open>noteTitle\<close> from its parameters. Each \<open>await\<close> of a stage
  passes a rejection on to the caller.
\<close>

definition SummaryWorkflow_run ::
  "JS \<Rightarrow> 'w Invoker \<Rightarrow> string \<Rightarrow> string \<Rightarrow> 'w \<Rightarrow> (JsError + SummaryResult) \<times> 'w" where
  "SummaryWorkflow_run js ai noteContent noteTitle w =
     (case extractTopics js ai noteContent noteTitle w of
        (Inl e, w1) \<Rightarrow> (Inl e, w1)
      | (Inr tps, w1) \<Rightarrow>
          (case generateSummary js ai noteContent noteTitle tps w1 of
             (Inl e, w2) \<Rightarrow> (Inl e, w2)
           | (Inr summ, w2) \<Rightarrow>
               (case extractKeyPoints js ai noteContent summ w2 of
                  (Inl e, w3) \<Rightarrow> (Inl e, w3)
                | (Inr pts, w3) \<Rightarrow>
                    (Inr \<lparr>summary = summ, keyPoints = pts, topics = tps\<rparr>, w3))))"

section \<open>QuestionsWorkflow (workflows/questionsWorkflow.ts)\<close>

record StudyQuestion =
  question :: string
  type :: string
  difficulty :: string

record QuestionsResult =
  questions :: "StudyQuestion list"
  totalCount :: nat

subsection \<open>analyzeContentDifficulty\<close>

definition analyzeContentDifficulty_request :: "string \<Rightarrow> AiRequest" where
  \<open>analyzeContentDifficulty_request txt =
     request ''You analyze educational content difficulty. Return only one word.''
       (''Analyze the difficulty level of this educational content. \<newline>Consider: technical terminology, concept complexity, prerequisites needed.\<newline>\<newline>Content:\<newline>''
        @ slice_to 2000 txt
        @ ''\<newline>\<newline>Return ONLY one word: "beginner", "intermediate", or "advanced"'')
       10 (3 / 10)\<close>

definition analyzeContentDifficulty_try :: "AiOutcome \<Rightarrow> JsError + string" where
  \<open>analyzeContentDifficulty_try out =
     (case out of
        Rejected \<Rightarrow> Inl AiError
      | Resolved r \<Rightarrow>
          (let level = trim (toLowerCase (or_else r ''intermediate''))
           in if level \<in> set [''beginner'', ''intermediate'', ''advanced''] then Inr level
              else Inr ''intermediate''))\<close>

definition analyzeContentDifficulty ::
  "'w Invoker \<Rightarrow> string \<Rightarrow> 'w \<Rightarrow> (JsError + string) \<times> 'w" where
  \<open>analyzeContentDifficulty ai txt w =
     (let (out, w1) = ai (analyzeContentDifficulty_request txt) w
      in (catch (analyzeContentDifficulty_try out) ''intermediate'', w1))\<close>

subsection \<open>generateQuestions\<close>

definition generateQuestions_request :: "string \<Rightarrow> string \<Rightarrow> string \<Rightarrow> AiRequest" where
  \<open>generateQuestions_request txt title level =
     request ''You generate study questions for educational content. Return only valid JSON.''
       (''Generate 7-10 study questions for this note. Include a mix of:\<newline>- Recall questions (testing memory)\<newline>- Comprehension questions (testing understanding)\<newline>- Application questions (testing ability to use concepts)\<newline>\<newline>Title: ''
        @ title @ ''\<newline>Difficulty Level: '' @ level
        @ ''\<newline>Content:\<newline>'' @ slice_to 4000 txt
        @ ''\<newline>\<newline>Return ONLY a JSON array of question strings, e.g., ["Question 1?", "Question 2?", "Question 3?"]'')
       600 (6 / 10)\<close>

fun nonempty_strings :: "json list \<Rightarrow> string list" where
  \<comment> \<open>\<open>.filter((q) => typeof q === 'string' && q.length > 0)\<close>\<close>
  "nonempty_strings [] = []"
| "nonempty_strings (JStr s # xs) = (if length s > 0 then s # nonempty_strings xs else nonempty_strings xs)"
| "nonempty_strings (x # xs) = nonempty_strings xs"

definition generateQuestions_try :: "JS \<Rightarrow> AiOutcome \<Rightarrow> JsError + string list" where
  \<open>generateQuestions_try js out =
     (case out of
        Rejected \<Rightarrow> Inl AiError
      | Resolved r \<Rightarrow>
          (case match_array (or_else r ''[]'') of
             Some m \<Rightarrow>
               (case parseArray js m of
                  None \<Rightarrow> Inl SyntaxError
                | Some v \<Rightarrow> Inr (nonempty_strings v))
           | None \<Rightarrow> Inr []))\<close>

definition generateQuestions ::
  "JS \<Rightarrow> 'w Invoker \<Rightarrow> string \<Rightarrow> string \<Rightarrow> string \<Rightarrow> 'w \<Rightarrow> (JsError + string list) \<times> 'w" where
  "generateQuestions js ai txt title level w =
     (let (out, w1) = ai (generateQuestions_request txt title level) w
      in (catch (generateQuestions_try js out) [], w1))"

subsection \<open>validateType, validateDifficulty\<close>

definition validateType :: "string \<Rightarrow> string" where
  \<open>validateType t =
     (let normalized = trim (toLowerCase t)
      in if normalized \<in> set [''recall'', ''comprehension'', ''application''] then normalized
         else ''comprehension'')\<close>

definition validateDifficulty :: "string \<Rightarrow> string" where
  \<open>validateDifficulty d =
     (let normalized = trim (toLowerCase d)
      in if normalized \<in> set [''easy'', ''medium'', ''hard''] then normalized
         else ''medium'')\<close>

subsection \<open>categorizeQuestions\<close>

definition property :: "json \<Rightarrow> string \<Rightarrow> JsError + json option" where
  \<comment> \<open>\<open>c.key\<close> for the keys \<open>index\<close>, \<open>type\<close>, \<open>difficulty\<close>: a TypeError on \<open>null\<close>,
      \<open>undefined\<close> (\<open>None\<close>) on a value that has no such property\<close>
  "property c key =
     (case c of
        JNull \<Rightarrow> Inl TypeError
      | JObj kvs \<Rightarrow> Inr (map_of kvs key)
      | _ \<Rightarrow> Inr None)"

fun find_category :: "json list \<Rightarrow> nat \<Rightarrow> JsError + json option" where
  \<comment> \<open>\<open>categories.find(c => c.index === idx)\<close>\<close>
  "find_category [] idx = Inr None"
| "find_category (c # cs) idx =
     (case property c ''index'' of
        Inl e \<Rightarrow> Inl e
      | Inr v \<Rightarrow> if v = Some (JNum (of_nat idx)) then Inr (Some c) else find_category cs idx)"

definition default_category :: json where
  \<open>default_category = JObj [(''type'', JStr ''comprehension''), (''difficulty'', JStr ''medium'')]\<close>

definition validated :: "(string \<Rightarrow> string) \<Rightarrow> json option \<Rightarrow> JsError + string" where
  \<comment> \<open>a validator called on a property value: \<open>toLowerCase\<close> exists on strings only\<close>
  "validated validate v = (case v of Some (JStr s) \<Rightarrow> Inr (validate s) | _ \<Rightarrow> Inl TypeError)"

definition categorize_one :: "json list \<Rightarrow> nat \<times> string \<Rightarrow> JsError + StudyQuestion" where
  \<comment> \<open>the arrow function mapped over \<open>questions\<close>, on the pair of index and question\<close>
  \<open>categorize_one categories iq =
     (case find_category categories (fst iq) of
        Inl e \<Rightarrow> Inl e
      | Inr found \<Rightarrow>
          (let category = (case found of None \<Rightarrow> default_category | Some c \<Rightarrow> c)
           in case property category ''type'' of
                Inl e \<Rightarrow> Inl e
              | Inr t \<Rightarrow>
                  (case validated validateType t of
                     Inl e \<Rightarrow> Inl e
                   | Inr vt \<Rightarrow>
                       (case property category ''difficulty'' of
                          Inl e \<Rightarrow> Inl e
                        | Inr d \<Rightarrow>
                            (case validated validateDifficulty d of
                               Inl e \<Rightarrow> Inl e
                             | Inr vd \<Rightarrow>
                                 Inr \<lparr>question = snd iq, type = vt, difficulty = vd\<rparr>)))))\<close>

fun map_throwing :: "('a \<Rightarrow> JsError + 'b) \<Rightarrow> 'a list \<Rightarrow> JsError + 'b list" where
  \<comment> \<open>\<open>xs.map(f)\<close> for an \<open>f\<close> that may throw: the first throw ends the map\<close>
  "map_throwing f [] = Inr []"
| "map_throwing f (x # xs) =
     (case f x of
        Inl e \<Rightarrow> Inl e
      | Inr y \<Rightarrow> (case map_throwing f xs of Inl e \<Rightarrow> Inl e | Inr ys \<Rightarrow> Inr (y # ys)))"

definition numbered_line :: "nat \<times> string \<Rightarrow> string" where
  \<open>numbered_line iq = decimal (fst iq + 1) @ ''. '' @ snd iq\<close>

definition categorizeQuestions_request :: "string list \<Rightarrow> AiRequest" where
  \<open>categorizeQuestions_request qs =
     request ''You categorize study questions. Return only valid JSON.''
       (''Categorize each study question by TYPE and DIFFICULTY.\<newline>\<newline>Questions:\<newline>''
        @ intercalate ''\<newline>'' (map numbered_line (enumerate 0 qs))
        @ ''\<newline>\<newline>For each question, determine:\<newline>TYPE: "recall" (memory/facts), "comprehension" (understanding), or "application" (using concepts)\<newline>DIFFICULTY: "easy", "medium", or "hard"\<newline>\<newline>Return ONLY a JSON array of objects like:\<newline>[\<newline>  {"index": 0, "type": "recall", "difficulty": "easy"},\<newline>  {"index": 1, "type": "comprehension", "difficulty": "medium"}\<newline>]'')
       400 (2 / 10)\<close>

text \<open>
  The body of the \<open>try\<close>: \<open>Inr None\<close> when the response has no bracketed part, so that
  control leaves the \<open>try\<close> without a \<open>return\<close>.
\<close>

definition categorizeQuestions_try :: "JS \<Rightarrow> string list \<Rightarrow> AiOutcome \<Rightarrow> JsError + StudyQuestion list option" where
  \<open>categorizeQuestions_try js qs out =
     (case out of
        Rejected \<Rightarrow> Inl AiError
      | Resolved r \<Rightarrow>
          (case match_array (or_else r ''[]'') of
             Some m \<Rightarrow>
               (case parseArray js m of
                  None \<Rightarrow> Inl SyntaxError
                | Some categories \<Rightarrow>
                    (case map_throwing (categorize_one categories) (enumerate 0 qs) of
                       Inl e \<Rightarrow> Inl e
                     | Inr labelled \<Rightarrow> Inr (Some labelled)))
           | None \<Rightarrow> Inr None))\<close>

definition default_question :: "string \<Rightarrow> StudyQuestion" where
  \<open>default_question q = \<lparr>question = q, type = ''comprehension'', difficulty = ''medium''\<rparr>\<close>

definition categorizeQuestions ::
  "JS \<Rightarrow> 'w Invoker \<Rightarrow> string list \<Rightarrow> 'w \<Rightarrow> (JsError + StudyQuestion list) \<times> 'w" where
  "categorizeQuestions js ai qs w =
     (if length qs = 0 then (Inr [], w)
      else
        let (out, w1) = ai (categorizeQuestions_request qs) w
        in (case categorizeQuestions_try js qs out of
              Inr (Some labelled) \<Rightarrow> (Inr labelled, w1)
            | _ \<Rightarrow> (Inr (map default_question qs), w1)))"

subsection \<open>run\<close>

definition QuestionsWorkflow_run ::
  "JS \<Rightarrow> 'w Invoker \<Rightarrow> string \<Rightarrow> string \<Rightarrow> 'w \<Rightarrow> (JsError + QuestionsResult) \<times> 'w" where
  "QuestionsWorkflow_run js ai noteContent noteTitle w =
     (case analyzeContentDifficulty ai noteContent w of
        (Inl e, w1) \<Rightarrow> (Inl e, w1)
      | (Inr level, w1) \<Rightarrow>
          (case generateQuestions js ai noteContent noteTitle level w1 of
             (Inl e, w2) \<Rightarrow> (Inl e, w2)
           | (Inr qs, w2) \<Rightarrow>
               (case categorizeQuestions js ai qs w2 of
                  (Inl e, w3) \<Rightarrow> (Inl e, w3)
                | (Inr categorizedQuestions, w3) \<Rightarrow>
                    (Inr \<lparr>questions = categorizedQuestions,
                          totalCount = length categorizedQuestions\<rparr>, w3))))"

subsection \<open>Example runtimes and invokers\<close>

definition table_js :: "(string \<times> json list) list \<Rightarrow> JS" where
  \<comment> \<open>a runtime whose parser knows the listed texts and rejects any other\<close>
  \<open>table_js table = \<lparr>parseArray = map_of table, numberToString = (\<lambda>r. ''0'')\<rparr>\<close>

definition failing :: "unit Invoker" where
  \<comment> \<open>an invoker that fails on every call\<close>
  "failing req w = (Rejected, w)"

definition scripted :: "string list \<Rightarrow> nat Invoker" where
  \<comment> \<open>an invoker that answers its k-th call with the k-th text and fails afterwards\<close>
  "scripted answers req k =
     (if k < length answers then Resolved (Some (answers ! k)) else Rejected, Suc k)"

definition example_questions_text :: string where
  \<open>example_questions_text = ''Here you go: ["a?", "b?", "c?"] Good luck!''\<close>

definition example_categories_text :: string where
  \<open>example_categories_text =
     ''[{"index": 0, "type": "Recall", "difficulty": "hard"}, {"index": 2, "type": "essay", "difficulty": " EASY "}]''\<close>

definition example_categories :: "json list" where
  \<open>example_categories =
     [JObj [(''index'', JNum 0), (''type'', JStr ''Recall''), (''difficulty'', JStr ''hard'')],
      JObj [(''index'', JNum 2), (''type'', JStr ''essay''), (''difficulty'', JStr '' EASY '')]]\<close>

definition example_js :: JS where
  \<open>example_js = table_js
     [(''["a?", "b?", "c?"]'', [JStr ''a?'', JStr ''b?'', JStr ''c?'']),
      (example_categories_text, example_categories)]\<close>

definition example_ai :: "nat Invoker" where
  \<open>example_ai = scripted ['' Intermediate'', example_questions_text, example_categories_text]\<close>

definition toString_topics_text :: string where
  \<open>toString_topics_text = ''[{"toString": 1}]''\<close>

definition toString_js :: JS where
  \<open>toString_js = table_js [(toString_topics_text, [JObj [(''toString'', JNum 1)]])]\<close>

definition toString_ai :: "nat Invoker" where
  \<open>toString_ai = scripted [toString_topics_text, ''A summary.'', ''No key points.'']\<close>

section \<open>Properties of ChatSession\<close>

subsection \<open>Facts about \<open>slice\<close> and single calls\<close>







lemma handleMessage_one_outcome:
  "\<exists>out. handleMessage ai msg ctx clk s = handleMessage (\<lambda>req. out) msg ctx clk s"
  by (cases "sessionData s") (auto simp: handleMessage_def Let_def)

subsection \<open>The claims\<close>

text \<open>
  C1, as the code has it. When the session is initialized and the Model Invoker rejects
  the request that \<open>handleMessage\<close> builds, the answer is 500 "AI request failed" and
  the stored message sequence is exactly what it was before the call: no assistant
  message and no user message is written (the only \<open>storage.put\<close> of \<open>messages\<close> is on
  the success path). The alarm is unchanged. When no \<open>noteContext\<close> was supplied the
  whole state is unchanged; when one was supplied, the field \<open>sessionData\<close> and the stored
  record both become the old data with the new context and the new \<open>lastActivity\<close>, and
  nothing else changes.
\<close>

theorem handleMessage_rejected:
  "sessionData s = Some sd0 \<Longrightarrow>
   ai (chatRequest (noteContext (updateContext ctx (at_context clk) sd0))
         (getMessages s @ [userMessage msg (at_user clk)])) = Rejected \<Longrightarrow>
     fst (handleMessage ai msg ctx clk s) = Response 500 (Failure ''AI request failed'') \<and>
     stored_messages (snd (handleMessage ai msg ctx clk s)) = stored_messages s \<and>
     getMessages (snd (handleMessage ai msg ctx clk s)) = getMessages s \<and>
     alarm_time (snd (handleMessage ai msg ctx clk s)) = alarm_time s \<and>
     sessionData (snd (handleMessage ai msg ctx clk s)) = Some (updateContext ctx (at_context clk) sd0) \<and>
     stored_sessionData (snd (handleMessage ai msg ctx clk s))
       = (case ctx of None \<Rightarrow> stored_sessionData s
          | Some c \<Rightarrow> Some (sd0\<lparr>noteContext := c, lastActivity := at_context clk\<rparr>)) \<and>
     snd (handleMessage ai msg ctx clk s)
       = (case ctx of None \<Rightarrow> s
          | Some c \<Rightarrow>
              s\<lparr>sessionData := Some (sd0\<lparr>noteContext := c, lastActivity := at_context clk\<rparr>),
                stored_sessionData := Some (sd0\<lparr>noteContext := c, lastActivity := at_context clk\<rparr>)\<rparr>)"
  by (cases ctx) (simp_all add: handleMessage_def Let_def getMessages_def updateContext_def)

theorem handleMessage_rejected_witness:
  "sessionData (session_of (Some twelve)) = Some example_data \<and>
   rejecting (chatRequest (noteContext (updateContext (Some ''new text'') (at_context example_clock) example_data))
         (getMessages (session_of (Some twelve)) @ [userMessage ''why?'' (at_user example_clock)])) = Rejected \<and>
   fst (handleMessage rejecting ''why?'' (Some ''new text'') example_clock (session_of (Some twelve)))
     = Response 500 (Failure ''AI request failed'') \<and>
   stored_messages (snd (handleMessage rejecting ''why?'' (Some ''new text'') example_clock
       (session_of (Some twelve)))) = Some twelve \<and>
   stored_sessionData (snd (handleMessage rejecting ''why?'' (Some ''new text'') example_clock
       (session_of (Some twelve))))
     = Some \<lparr>noteId = ''n1'', noteContext = ''new text'', lastActivity = 2001\<rparr>"
proof -
  have h: "sessionData (session_of (Some twelve)) = Some example_data"
    by (simp add: session_of_def constructor_def)
  have r: "rejecting (chatRequest (noteContext (updateContext (Some ''new text'') (at_context example_clock) example_data))
         (getMessages (session_of (Some twelve)) @ [userMessage ''why?'' (at_user example_clock)])) = Rejected"
    by (simp add: rejecting_def)
  have m: "stored_messages (session_of (Some twelve)) = Some twelve"
    by (simp add: session_of_def constructor_def)
  have d: "example_data\<lparr>noteContext := ''new text'', lastActivity := at_context example_clock\<rparr>
             = \<lparr>noteId = ''n1'', noteContext = ''new text'', lastActivity = 2001\<rparr>"
    by (simp add: example_data_def example_clock_def)
  from handleMessage_rejected
         [where ai = rejecting and ctx = "Some ''new text''" and clk = example_clock
            and msg = "''why?''", OF h r] h r m d
  show ?thesis by simp
qed

text \<open>
  C1 as stated fails: on a freshly initialized session with an empty history and a
  rejecting invoker, the stored history after the call is not the prior history plus
  the user message; it is still empty.
\<close>

theorem user_message_persisted_counterexample:
  "getMessages (snd (handleMessage rejecting ''hi'' None example_clock (session_of None)))
     \<noteq> slice_last 50 (getMessages (session_of None) @ [userMessage ''hi'' (at_user example_clock)])"
  by (simp add: handleMessage_def session_of_def constructor_def getMessages_def Let_def
                updateContext_def slice_last_def rejecting_def)

text \<open>
  C2, as the code has it. With 12 stored messages, the invoker is consulted on exactly one
  request, whose message list has 11 entries: the synthesized system message (its
  content is \<open>systemPrompt\<close> of the current note context, which embeds the first 4000
  units of it), then the 9 most recent stored messages, then the user message of this
  very call; the window is the last 10 of the history with the new user message already
  pushed. Every entry after the system message has its content cut to 2000 units.
\<close>

theorem context_window:
  "sessionData s = Some sd0 \<Longrightarrow> length (getMessages s) = 12 \<Longrightarrow>
   (let ctx1 = noteContext (updateContext ctx (at_context clk) sd0);
        req = chatRequest ctx1 (getMessages s @ [userMessage msg (at_user clk)])
    in handleMessage ai msg ctx clk s = handleMessage (\<lambda>_. ai req) msg ctx clk s \<and>
       messages req =
         \<lparr>role = ''system'', content = systemPrompt ctx1\<rparr>
         # map promptEntry (slice_last 9 (getMessages s))
         @ [\<lparr>role = ''user'', content = slice_to 2000 msg\<rparr>] \<and>
       length (messages req) = 11 \<and>
       list_all (\<lambda>m. length (content m) \<le> 2000) (tl (messages req)))"
proof -
  assume sd: "sessionData s = Some sd0" and len: "length (getMessages s) = 12"
  define ctx1 where "ctx1 = noteContext (updateContext ctx (at_context clk) sd0)"
  define req where "req = chatRequest ctx1 (getMessages s @ [userMessage msg (at_user clk)])"
  have same: "handleMessage ai msg ctx clk s = handleMessage (\<lambda>_. ai req) msg ctx clk s"
    using sd by (cases ctx) (simp_all add: handleMessage_def Let_def getMessages_def req_def ctx1_def)
  have win: "slice_last 10 (getMessages s @ [userMessage msg (at_user clk)])
               = slice_last 9 (getMessages s) @ [userMessage msg (at_user clk)]"
    using len by (simp add: slice_last_def)
  have msgs: "messages req =
         \<lparr>role = ''system'', content = systemPrompt ctx1\<rparr>
         # map promptEntry (slice_last 9 (getMessages s))
         @ [\<lparr>role = ''user'', content = slice_to 2000 msg\<rparr>]"
    unfolding req_def chatRequest_def aiMessages_def win by (simp add: userMessage_def promptEntry_def)
  have n: "length (messages req) = 11"
    using len by (simp add: msgs slice_last_def)
  have short: "list_all (\<lambda>m. length (content m) \<le> 2000) (tl (messages req))"
    by (simp add: msgs list_all_iff slice_to_def promptEntry_def)
  from same msgs n short show ?thesis
    by (simp add: Let_def ctx1_def [symmetric] req_def [symmetric])
qed

theorem context_window_witness:
  "sessionData (session_of (Some twelve)) = Some example_data \<and> length (getMessages (session_of (Some twelve))) = 12 \<and>
   length (messages (chatRequest (noteContext (updateContext None (at_context example_clock) example_data))
      (getMessages (session_of (Some twelve)) @ [userMessage ''new'' (at_user example_clock)]))) = 11"
proof -
  have h1: "sessionData (session_of (Some twelve)) = Some example_data"
    by (simp add: session_of_def constructor_def)
  have h2: "length (getMessages (session_of (Some twelve))) = 12"
    by (simp add: session_of_def constructor_def getMessages_def twelve_def)
  have "length (messages (chatRequest (noteContext (updateContext None (at_context example_clock) example_data))
      (getMessages (session_of (Some twelve)) @ [userMessage ''new'' (at_user example_clock)]))) = 11"
    using context_window [OF h1 h2, of None example_clock "''new''" "\<lambda>_. Rejected"]
    unfolding Let_def by blast
  with h1 h2 show ?thesis by blast
qed

text \<open>
  C2 as stated fails: for the 12 stored messages \<open>twelve\<close>, the list handed to the
  invoker is not the system message followed by the 10 most recent stored messages, and
  an invoker that answers only that list is never answered.
\<close>

theorem context_window_counterexample:
  "aiMessages (noteContext example_data)
       (getMessages (session_of (Some twelve)) @ [userMessage ''new'' (at_user example_clock)])
     \<noteq> \<lparr>role = ''system'', content = systemPrompt (noteContext example_data)\<rparr>
        # map promptEntry
            (slice_last 10 (getMessages (session_of (Some twelve)))) \<and>
   fst (handleMessage
          (accepts_only
             (\<lparr>role = ''system'', content = systemPrompt (noteContext example_data)\<rparr>
              # map promptEntry
                  (slice_last 10 (getMessages (session_of (Some twelve))))))
          ''new'' None example_clock (session_of (Some twelve)))
     = Response 500 (Failure ''AI request failed'')"
  by (simp add: aiMessages_def session_of_def constructor_def getMessages_def twelve_def
                slice_last_def slice_to_def userMessage_def promptEntry_def example_clock_def example_data_def
                handleMessage_def accepts_only_def chatRequest_def updateContext_def Let_def)




text \<open>
  C7. The alarm on an initialized session: when \<open>now - lastActivity\<close> is below 24 hours
  it only sets the alarm to \<open>lastActivity + 24h\<close>; otherwise it only deletes the stored
  messages, and \<open>sessionData\<close> (field and stored record) stays as it is.
\<close>

theorem alarm_branches:
  "sessionData s = Some sd \<Longrightarrow>
     (now - lastActivity sd < twentyFourHours \<longrightarrow>
        alarm now s = s\<lparr>alarm_time := Some (lastActivity sd + twentyFourHours)\<rparr>) \<and>
     (now - lastActivity sd \<ge> twentyFourHours \<longrightarrow>
        alarm now s = s\<lparr>stored_messages := None\<rparr>)"
  by (simp add: alarm_def Let_def)

theorem alarm_branches_witness:
  "sessionData (session_of (Some twelve)) = Some example_data \<and>
   (1500 :: int) - lastActivity example_data < twentyFourHours \<and>
   alarm 1500 (session_of (Some twelve))
     = (session_of (Some twelve))\<lparr>alarm_time := Some (lastActivity example_data + twentyFourHours)\<rparr> \<and>
   (86401000 :: int) - lastActivity example_data \<ge> twentyFourHours \<and>
   alarm 86401000 (session_of (Some twelve)) = (session_of (Some twelve))\<lparr>stored_messages := None\<rparr>"
proof -
  have h: "sessionData (session_of (Some twelve)) = Some example_data"
    by (simp add: session_of_def constructor_def)
  have a: "(1500 :: int) - lastActivity example_data < twentyFourHours"
    by (simp add: example_data_def twentyFourHours_def)
  have b: "(86401000 :: int) - lastActivity example_data \<ge> twentyFourHours"
    by (simp add: example_data_def twentyFourHours_def)
  from alarm_branches [OF h, of 1500] alarm_branches [OF h, of 86401000] h a b
  show ?thesis by blast
qed

text \<open>
  C8. \<open>handleMessage\<close> on an object whose \<open>sessionData\<close> is absent answers 400
  "Session not initialized" and leaves the whole state, storage included, as it was.
\<close>

theorem handleMessage_uninitialized:
  "sessionData s = None \<Longrightarrow>
     handleMessage ai msg ctx clk s = (Response 400 (Failure ''Session not initialized''), s)"
  by (simp add: handleMessage_def)

theorem handleMessage_uninitialized_witness:
  "sessionData (constructor None (Some [userMessage ''kept'' 5]) None) = None \<and>
   handleMessage (\<lambda>_. Resolved (Some ''hello'')) ''hi'' (Some ''note text'')
       \<lparr>at_context = 1, at_user = 2, at_reply = 3, at_activity = 4\<rparr>
       (constructor None (Some [userMessage ''kept'' 5]) None)
     = (Response 400 (Failure ''Session not initialized''),
        constructor None (Some [userMessage ''kept'' 5]) None)"
  using handleMessage_uninitialized
    [of "constructor None (Some [userMessage ''kept'' 5]) None"
        "\<lambda>_. Resolved (Some ''hello'')" "''hi''" "Some ''note text''"
        "\<lparr>at_context = 1, at_user = 2, at_reply = 3, at_activity = 4\<rparr>"]
  by (simp add: constructor_def)

text \<open>
  C9. \<open>handleClear\<close> deletes the key \<open>messages\<close> and changes nothing else: the history
  read right after it is empty, and \<open>sessionData\<close>, its stored record and the alarm are
  what they were.
\<close>

theorem handleClear_frame:
  "fst (handleClear s) = Response 200 Success \<and>
   snd (handleClear s) = s\<lparr>stored_messages := None\<rparr> \<and>
   fst (handleGetHistory (snd (handleClear s))) = Response 200 (Messages []) \<and>
   sessionData (snd (handleClear s)) = sessionData s \<and>
   stored_sessionData (snd (handleClear s)) = stored_sessionData s \<and>
   alarm_time (snd (handleClear s)) = alarm_time s"
  by (simp add: handleClear_def handleGetHistory_def getMessages_def)

text \<open>
  C10. The alarm on an object without \<open>sessionData\<close> changes nothing: no message is
  deleted and no alarm is set. \<open>handleStoreMessage\<close> never creates \<open>sessionData\<close>, so
  this also holds right after any \<open>/store\<close> call on such an object.
\<close>

theorem alarm_uninitialized:
  "sessionData s = None \<Longrightarrow>
     alarm now s = s \<and>
     sessionData (snd (handleStoreMessage r c now1 now2 s)) = None \<and>
     alarm now (snd (handleStoreMessage r c now1 now2 s)) = snd (handleStoreMessage r c now1 now2 s)"
  by (simp add: alarm_def handleStoreMessage_def Let_def)

theorem alarm_uninitialized_witness:
  "sessionData (constructor None (Some twelve) None) = None \<and>
   alarm 99999999999 (constructor None (Some twelve) None) = constructor None (Some twelve) None \<and>
   alarm 99999999999 (snd (handleStoreMessage (Some ''assistant'') (Some ''summary'') 5 6
        (constructor None None None)))
     = snd (handleStoreMessage (Some ''assistant'') (Some ''summary'') 5 6 (constructor None None None))"
proof -
  have h: "sessionData (constructor None (Some twelve) None) = None"
    by (simp add: constructor_def)
  have h2: "sessionData (constructor None None None) = None"
    by (simp add: constructor_def)
  from alarm_uninitialized [OF h, of 99999999999]
       alarm_uninitialized [OF h2, of 99999999999 "Some ''assistant''" "Some ''summary''" 5 6] h
  show ?thesis by blast
qed

section \<open>Properties of the workflows\<close>

subsection \<open>Every stage returns\<close>

lemma catch_returns: "catch body fallback = Inr (case body of Inl e \<Rightarrow> fallback | Inr v \<Rightarrow> v)"
  by (simp add: catch_def split: sum.splits)

lemma extractTopics_returns:
  "extractTopics js ai txt title w =
     (Inr (case extractTopics_try js (fst (ai (extractTopics_request txt title) w)) of
             Inl e \<Rightarrow> [JStr ''General''] | Inr v \<Rightarrow> v),
      snd (ai (extractTopics_request txt title) w))"
  by (simp add: extractTopics_def catch_returns split: prod.splits)

lemma generateSummary_returns:
  "join js '', '' tps = Inr joined \<Longrightarrow>
   generateSummary js ai txt title tps w =
     (Inr (case generateSummary_try (fst (ai (generateSummary_request txt title joined) w)) of
             Inl e \<Rightarrow> ''Error generating summary.'' | Inr v \<Rightarrow> v),
      snd (ai (generateSummary_request txt title joined) w))"
  by (simp add: generateSummary_def catch_returns split: prod.splits)

lemma generateSummary_throws:
  "join js '', '' tps = Inl e \<Longrightarrow> generateSummary js ai txt title tps w = (Inl e, w)"
  by (simp add: generateSummary_def)

lemma join_General: "join js sep [JStr ''General''] = Inr ''General''"
  by (simp add: join_def)

lemma extractKeyPoints_returns:
  "extractKeyPoints js ai txt summ w =
     (Inr (case extractKeyPoints_try js (fst (ai (extractKeyPoints_request txt summ) w)) of
             Inl e \<Rightarrow> [] | Inr v \<Rightarrow> v),
      snd (ai (extractKeyPoints_request txt summ) w))"
  by (simp add: extractKeyPoints_def catch_returns split: prod.splits)

lemma analyzeContentDifficulty_returns:
  "analyzeContentDifficulty ai txt w =
     (Inr (case analyzeContentDifficulty_try (fst (ai (analyzeContentDifficulty_request txt) w)) of
             Inl e \<Rightarrow> ''intermediate'' | Inr v \<Rightarrow> v),
      snd (ai (analyzeContentDifficulty_request txt) w))"
  by (simp add: analyzeContentDifficulty_def catch_returns split: prod.splits)

lemma generateQuestions_returns:
  "generateQuestions js ai txt title level w =
     (Inr (case generateQuestions_try js (fst (ai (generateQuestions_request txt title level) w)) of
             Inl e \<Rightarrow> [] | Inr v \<Rightarrow> v),
      snd (ai (generateQuestions_request txt title level) w))"
  by (simp add: generateQuestions_def catch_returns split: prod.splits)

lemma categorizeQuestions_returns:
  "categorizeQuestions js ai qs w =
     (if qs = [] then (Inr [], w)
      else (Inr (case categorizeQuestions_try js qs (fst (ai (categorizeQuestions_request qs) w)) of
                   Inr (Some labelled) \<Rightarrow> labelled | _ \<Rightarrow> map default_question qs),
            snd (ai (categorizeQuestions_request qs) w)))"
  by (simp add: categorizeQuestions_def split: prod.splits sum.splits option.splits)

lemma SummaryWorkflow_run_returns:
  "fst (extractTopics js ai txt title w) = Inr tps \<Longrightarrow> join js '', '' tps = Inr joined \<Longrightarrow>
     \<exists>r w1. SummaryWorkflow_run js ai txt title w = (Inr r, w1)"
  by (cases "extractTopics js ai txt title w")
     (simp add: SummaryWorkflow_run_def generateSummary_returns extractKeyPoints_returns)

lemma QuestionsWorkflow_run_returns:
  "\<exists>r w1. QuestionsWorkflow_run js ai txt title w = (Inr r, w1)"
  by (simp add: QuestionsWorkflow_run_def analyzeContentDifficulty_returns generateQuestions_returns
                categorizeQuestions_returns)

subsection \<open>Categorization\<close>

lemma map_throwing_Inr:
  "map_throwing f xs = Inr ys \<Longrightarrow>
     length ys = length xs \<and> (\<forall>i < length xs. f (xs ! i) = Inr (ys ! i))"
proof (induction xs arbitrary: ys)
  case Nil
  then show ?case by simp
next
  case (Cons x xs)
  from Cons.prems obtain y ys' where
    y: "f x = Inr y" and ys': "map_throwing f xs = Inr ys'" and eq: "ys = y # ys'"
    by (auto split: sum.splits)
  from Cons.IH [OF ys'] have
    len: "length ys' = length xs" and nth: "\<forall>i < length xs. f (xs ! i) = Inr (ys' ! i)"
    by simp_all
  show ?case
  proof (intro conjI allI impI)
    show "length ys = length (x # xs)" using len eq by simp
  next
    fix i assume "i < length (x # xs)"
    then show "f ((x # xs) ! i) = Inr (ys ! i)"
      using y nth eq by (cases i) simp_all
  qed
qed

lemma find_category_absent:
  "list_all (\<lambda>c. property c ''index'' \<noteq> Inr (Some (JNum (of_nat idx)))) cats \<Longrightarrow>
   find_category cats idx = Inr found \<Longrightarrow> found = None"
  by (induction cats) (auto split: sum.splits if_splits)

lemma validateType_default: "validateType ''comprehension'' = ''comprehension''"
  by (simp add: validateType_def trim_def toLowerCase_def toLowerCase_unit_def is_space_def)

lemma validateDifficulty_default: "validateDifficulty ''medium'' = ''medium''"
  by (simp add: validateDifficulty_def trim_def toLowerCase_def toLowerCase_unit_def is_space_def)

lemma categorize_one_question:
  "categorize_one cats iq = Inr sq \<Longrightarrow> question sq = snd iq"
  by (auto simp: categorize_one_def Let_def split: sum.splits)

lemma categorize_one_absent:
  assumes "list_all (\<lambda>c. property c ''index'' \<noteq> Inr (Some (JNum (of_nat (fst iq))))) cats"
      and "categorize_one cats iq = Inr sq"
  shows "sq = default_question (snd iq)"
proof -
  from assms(2) obtain found where f: "find_category cats (fst iq) = Inr found"
    by (auto simp: categorize_one_def split: sum.splits)
  with assms(1) have "found = None" by (rule find_category_absent)
  with f assms(2) show ?thesis
    by (simp add: categorize_one_def default_category_def property_def validated_def
                  validateType_default validateDifficulty_default default_question_def)
qed

lemma nth_enumerate0: "i < length qs \<Longrightarrow> enumerate 0 qs ! i = (i, qs ! i)"
  by (simp add: nth_enumerate_eq)

lemma labelled_questions:
  assumes "map_throwing (categorize_one cats) (enumerate 0 qs) = Inr labelled"
  shows "map question labelled = qs"
proof -
  from map_throwing_Inr [OF assms] have
    len: "length labelled = length qs" and
    nth: "\<forall>i < length qs. categorize_one cats (enumerate 0 qs ! i) = Inr (labelled ! i)"
    by simp_all
  show ?thesis
  proof (rule nth_equalityI)
    show "length (map question labelled) = length qs" using len by simp
  next
    fix i assume "i < length (map question labelled)"
    then have i: "i < length qs" using len by simp
    with nth have "categorize_one cats (i, qs ! i) = Inr (labelled ! i)"
      by (simp add: nth_enumerate0)
    then have "question (labelled ! i) = qs ! i" by (auto dest: categorize_one_question)
    then show "map question labelled ! i = qs ! i" using i len by simp
  qed
qed

lemma labelled_absent:
  assumes "map_throwing (categorize_one cats) (enumerate 0 qs) = Inr labelled"
      and "i < length qs"
      and "list_all (\<lambda>c. property c ''index'' \<noteq> Inr (Some (JNum (of_nat i)))) cats"
  shows "labelled ! i = default_question (qs ! i)"
proof -
  from map_throwing_Inr [OF assms(1)] assms(2)
  have "categorize_one cats (i, qs ! i) = Inr (labelled ! i)"
    by (simp add: nth_enumerate0)
  with assms(3) show ?thesis
    using categorize_one_absent [of "(i, qs ! i)" cats "labelled ! i"] by simp
qed

lemma categorize_absent:
  assumes "ai (categorizeQuestions_request qs) w = (Resolved r, w1)"
      and "match_array (or_else r ''[]'') = Some m"
      and "parseArray js m = Some cats"
      and "i < length qs"
      and "list_all (\<lambda>c. property c ''index'' \<noteq> Inr (Some (JNum (of_nat i)))) cats"
  shows "\<exists>labelled. categorizeQuestions js ai qs w = (Inr labelled, w1) \<and>
           map question labelled = qs \<and> labelled ! i = default_question (qs ! i)"
proof (cases "map_throwing (categorize_one cats) (enumerate 0 qs)")
  case (Inl e)
  with assms show ?thesis
    by (auto simp: categorizeQuestions_def categorizeQuestions_try_def default_question_def comp_def)
next
  case (Inr labelled)
  with assms have "categorizeQuestions js ai qs w = (Inr labelled, w1)"
    by (auto simp: categorizeQuestions_def categorizeQuestions_try_def)
  with labelled_questions [OF Inr] labelled_absent [OF Inr assms(4,5)] show ?thesis by simp
qed

subsection \<open>The claims\<close>

text \<open>
  C3, as the code has it. When every call of the Model Invoker fails, the summary
  workflow returns the non-empty text "Error generating summary." as summary, no key
  points, and the one-element topic list \<open>["General"]\<close>, the value of the \<open>catch\<close> branch
  of \<open>extractTopics\<close>.
\<close>

theorem summary_fallbacks:
  "(\<And>req w'. fst (ai req w') = Rejected) \<Longrightarrow>
     fst (SummaryWorkflow_run js ai txt title w)
       = Inr \<lparr>summary = ''Error generating summary.'', keyPoints = [], topics = [JStr ''General'']\<rparr>"
  by (simp add: SummaryWorkflow_run_def extractTopics_returns
                generateSummary_returns [OF join_General]
                extractKeyPoints_returns extractTopics_try_def generateSummary_try_def
                extractKeyPoints_try_def)

theorem summary_fallbacks_witness:
  "fst (SummaryWorkflow_run (table_js []) failing ''Plants make sugar from light.'' ''Biology'' ())
     = Inr \<lparr>summary = ''Error generating summary.'', keyPoints = [], topics = [JStr ''General'']\<rparr>"
proof -
  have h: "\<And>req w'. fst (failing req w') = Rejected" by (simp add: failing_def)
  from summary_fallbacks [of failing, OF h] show ?thesis .
qed

text \<open>
  C3 as stated fails: with an invoker that fails on every call the topics of the result
  are not empty.
\<close>

theorem summary_topics_counterexample:
  "(case fst (SummaryWorkflow_run (table_js []) failing ''Plants make sugar from light.'' ''Biology'' ()) of
      Inl e \<Rightarrow> False
    | Inr r \<Rightarrow> topics r \<noteq> [])"
  by (simp add: SummaryWorkflow_run_def extractTopics_def generateSummary_def extractKeyPoints_def
                failing_def catch_def extractTopics_try_def generateSummary_try_def
                extractKeyPoints_try_def join_def)

text \<open>
  C5. When the generate-questions stage returns three questions and the categorization
  response parses to entries none of which has index 1, the workflow returns three
  study questions, the given ones in order, and the one at index 1 is labelled
  \<open>(comprehension, medium)\<close>. The validators lower-case and trim their input; a result
  outside the vocabulary becomes \<open>comprehension\<close> or \<open>medium\<close>, a result inside it is
  returned, and an entry found for a question is labelled with the validated values.
\<close>

theorem missing_category_defaults:
  "(analyzeContentDifficulty ai txt w = (Inr level, w1) \<and>
    generateQuestions js ai txt title level w1 = (Inr [q0, q1, q2], w2) \<and>
    ai (categorizeQuestions_request [q0, q1, q2]) w2 = (Resolved r, w3) \<and>
    match_array (or_else r ''[]'') = Some m \<and>
    parseArray js m = Some cats \<and>
    list_all (\<lambda>c. property c ''index'' \<noteq> Inr (Some (JNum 1))) cats
    \<longrightarrow> (\<exists>labelled.
           QuestionsWorkflow_run js ai txt title w
             = (Inr \<lparr>questions = labelled, totalCount = 3\<rparr>, w3) \<and>
           map question labelled = [q0, q1, q2] \<and>
           labelled ! 1 = \<lparr>question = q1, type = ''comprehension'', difficulty = ''medium''\<rparr>)) \<and>
   (trim (toLowerCase t) \<notin> set [''recall'', ''comprehension'', ''application'']
      \<longrightarrow> validateType t = ''comprehension'') \<and>
   (trim (toLowerCase d) \<notin> set [''easy'', ''medium'', ''hard'']
      \<longrightarrow> validateDifficulty d = ''medium'') \<and>
   (trim (toLowerCase t) \<in> set [''recall'', ''comprehension'', ''application'']
      \<longrightarrow> validateType t = trim (toLowerCase t)) \<and>
   (trim (toLowerCase d) \<in> set [''easy'', ''medium'', ''hard'']
      \<longrightarrow> validateDifficulty d = trim (toLowerCase d)) \<and>
   categorize_one [JObj [(''index'', JNum (of_nat i)), (''type'', JStr t), (''difficulty'', JStr d)]] (i, q)
     = Inr \<lparr>question = q, type = validateType t, difficulty = validateDifficulty d\<rparr>"
proof (intro conjI impI)
  assume a: "analyzeContentDifficulty ai txt w = (Inr level, w1) \<and>
    generateQuestions js ai txt title level w1 = (Inr [q0, q1, q2], w2) \<and>
    ai (categorizeQuestions_request [q0, q1, q2]) w2 = (Resolved r, w3) \<and>
    match_array (or_else r ''[]'') = Some m \<and>
    parseArray js m = Some cats \<and>
    list_all (\<lambda>c. property c ''index'' \<noteq> Inr (Some (JNum 1))) cats"
  then have absent: "list_all (\<lambda>c. property c ''index'' \<noteq> Inr (Some (JNum (of_nat 1)))) cats"
    by simp
  have one: "1 < length [q0, q1, q2]" by simp
  from a have a3: "ai (categorizeQuestions_request [q0, q1, q2]) w2 = (Resolved r, w3)"
    and a4: "match_array (or_else r ''[]'') = Some m" and a5: "parseArray js m = Some cats"
    by simp_all
  from categorize_absent [where ai = ai and qs = "[q0, q1, q2]" and w = w2 and i = 1,
                          OF a3 a4 a5 one absent]
  obtain labelled where
    c: "categorizeQuestions js ai [q0, q1, q2] w2 = (Inr labelled, w3)" and
    qs: "map question labelled = [q0, q1, q2]" and
    d: "labelled ! 1 = default_question ([q0, q1, q2] ! 1)"
    by (elim exE conjE) (rule that, assumption+)
  from qs have "length (map question labelled) = 3" by simp
  then have len: "length labelled = 3" by simp
  from a c len have "QuestionsWorkflow_run js ai txt title w
             = (Inr \<lparr>questions = labelled, totalCount = 3\<rparr>, w3)"
    by (simp add: QuestionsWorkflow_run_def)
  with qs d show "\<exists>labelled.
           QuestionsWorkflow_run js ai txt title w
             = (Inr \<lparr>questions = labelled, totalCount = 3\<rparr>, w3) \<and>
           map question labelled = [q0, q1, q2] \<and>
           labelled ! 1 = \<lparr>question = q1, type = ''comprehension'', difficulty = ''medium''\<rparr>"
    by (auto simp: default_question_def)
next
  assume "trim (toLowerCase t) \<notin> set [''recall'', ''comprehension'', ''application'']"
  then show "validateType t = ''comprehension''" by (simp add: validateType_def Let_def)
next
  assume "trim (toLowerCase d) \<notin> set [''easy'', ''medium'', ''hard'']"
  then show "validateDifficulty d = ''medium''" by (simp add: validateDifficulty_def Let_def)
next
  assume "trim (toLowerCase t) \<in> set [''recall'', ''comprehension'', ''application'']"
  then show "validateType t = trim (toLowerCase t)" by (simp add: validateType_def Let_def)
next
  assume "trim (toLowerCase d) \<in> set [''easy'', ''medium'', ''hard'']"
  then show "validateDifficulty d = trim (toLowerCase d)" by (simp add: validateDifficulty_def Let_def)
next
  show "categorize_one [JObj [(''index'', JNum (of_nat i)), (''type'', JStr t), (''difficulty'', JStr d)]] (i, q)
     = Inr \<lparr>question = q, type = validateType t, difficulty = validateDifficulty d\<rparr>"
    by (simp add: categorize_one_def property_def validated_def)
qed

theorem missing_category_defaults_witness:
  "analyzeContentDifficulty example_ai ''note'' 0 = (Inr ''intermediate'', 1) \<and>
   generateQuestions example_js example_ai ''note'' ''T'' ''intermediate'' 1
     = (Inr [''a?'', ''b?'', ''c?''], 2) \<and>
   example_ai (categorizeQuestions_request [''a?'', ''b?'', ''c?'']) 2
     = (Resolved (Some example_categories_text), 3) \<and>
   match_array (or_else (Some example_categories_text) ''[]'') = Some example_categories_text \<and>
   parseArray example_js example_categories_text = Some example_categories \<and>
   list_all (\<lambda>c. property c ''index'' \<noteq> Inr (Some (JNum 1))) example_categories \<and>
   (\<exists>labelled.
      QuestionsWorkflow_run example_js example_ai ''note'' ''T'' 0
        = (Inr \<lparr>questions = labelled, totalCount = 3\<rparr>, 3) \<and>
      map question labelled = [''a?'', ''b?'', ''c?''] \<and>
      labelled ! 1 = \<lparr>question = ''b?'', type = ''comprehension'', difficulty = ''medium''\<rparr>) \<and>
   trim (toLowerCase ''essay'') \<notin> set [''recall'', ''comprehension'', ''application''] \<and>
   validateType ''essay'' = ''comprehension'' \<and>
   trim (toLowerCase ''extreme'') \<notin> set [''easy'', ''medium'', ''hard''] \<and>
   validateDifficulty ''extreme'' = ''medium'' \<and>
   trim (toLowerCase '' Recall'') \<in> set [''recall'', ''comprehension'', ''application''] \<and>
   validateType '' Recall'' = ''recall'' \<and>
   trim (toLowerCase '' EASY '') \<in> set [''easy'', ''medium'', ''hard''] \<and>
   validateDifficulty '' EASY '' = ''easy''"
proof -
  have h1: "analyzeContentDifficulty example_ai ''note'' 0 = (Inr ''intermediate'', 1)"
    by (simp add: analyzeContentDifficulty_def example_ai_def scripted_def catch_def
          analyzeContentDifficulty_try_def or_else_def trim_def toLowerCase_def
          toLowerCase_unit_def is_space_def)
  have h2: "generateQuestions example_js example_ai ''note'' ''T'' ''intermediate'' 1
              = (Inr [''a?'', ''b?'', ''c?''], 2)"
    by (simp add: generateQuestions_def example_ai_def scripted_def catch_def
          generateQuestions_try_def or_else_def match_array_def example_questions_text_def
          example_js_def table_js_def)
  have h3: "example_ai (categorizeQuestions_request [''a?'', ''b?'', ''c?'']) 2
              = (Resolved (Some example_categories_text), 3)"
    by (simp add: example_ai_def scripted_def)
  have h4: "match_array (or_else (Some example_categories_text) ''[]'')
              = Some example_categories_text"
    by (simp add: or_else_def match_array_def example_categories_text_def)
  have h5: "parseArray example_js example_categories_text = Some example_categories"
    by (simp add: example_js_def table_js_def example_categories_text_def)
  have h6: "list_all (\<lambda>c. property c ''index'' \<noteq> Inr (Some (JNum 1))) example_categories"
    by (simp add: example_categories_def property_def)
  have v1: "trim (toLowerCase ''essay'') \<notin> set [''recall'', ''comprehension'', ''application'']"
    by (simp add: trim_def toLowerCase_def toLowerCase_unit_def is_space_def)
  have v2: "trim (toLowerCase ''extreme'') \<notin> set [''easy'', ''medium'', ''hard'']"
    by (simp add: trim_def toLowerCase_def toLowerCase_unit_def is_space_def)
  have v3: "trim (toLowerCase '' Recall'') = ''recall''"
    by (simp add: trim_def toLowerCase_def toLowerCase_unit_def is_space_def)
  have v4: "trim (toLowerCase '' EASY '') = ''easy''"
    by (simp add: trim_def toLowerCase_def toLowerCase_unit_def is_space_def)
  note outside = missing_category_defaults
    [of example_ai "''note''" 0 "''intermediate''" 1 example_js "''T''" "''a?''" "''b?''" "''c?''" 2
        "Some example_categories_text" 3 example_categories_text example_categories
        "''essay''" "''extreme''"]
  note inside = missing_category_defaults
    [of example_ai "''note''" 0 "''intermediate''" 1 example_js "''T''" "''a?''" "''b?''" "''c?''" 2
        "Some example_categories_text" 3 example_categories_text example_categories
        "'' Recall''" "'' EASY ''"]
  from outside h1 h2 h3 h4 h5 h6 have run: "\<exists>labelled.
      QuestionsWorkflow_run example_js example_ai ''note'' ''T'' 0
        = (Inr \<lparr>questions = labelled, totalCount = 3\<rparr>, 3) \<and>
      map question labelled = [''a?'', ''b?'', ''c?''] \<and>
      labelled ! 1 = \<lparr>question = ''b?'', type = ''comprehension'', difficulty = ''medium''\<rparr>"
    by simp
  from outside v1 have t1: "validateType ''essay'' = ''comprehension''" by simp
  from outside v2 have t2: "validateDifficulty ''extreme'' = ''medium''" by simp
  from inside v3 have t3: "validateType '' Recall'' = ''recall''" by simp
  from inside v4 have t4: "validateDifficulty '' EASY '' = ''easy''" by simp
  from h1 h2 h3 h4 h5 h6 run v1 v2 v3 v4 t1 t2 t3 t4 show ?thesis by simp
qed

text \<open>
  C6, at an input where the summary workflow throws. The invoker answers the
  extract-topics call with the text \<open>[{"toString": 1}]\<close>, which parses to an array holding
  one object with the key \<open>toString\<close>. \<open>extractTopics\<close> returns that array as it is;
  \<open>generateSummary\<close> then evaluates \<open>topics.join(', ')\<close> while it builds its prompt, before
  its \<open>try\<close>, and the conversion of the object to text throws a TypeError that \<open>run\<close>
  passes on to its caller after this one call of the invoker. (The questions workflow
  returns for every input, see \<open>QuestionsWorkflow_run_returns\<close>, and so does the summary
  workflow whenever the join succeeds, see \<open>SummaryWorkflow_run_returns\<close>.)
\<close>

theorem summary_run_throws:
  "SummaryWorkflow_run toString_js toString_ai ''note'' ''Title'' 0 = (Inl TypeError, 1)"
  by (simp add: SummaryWorkflow_run_def extractTopics_def extractTopics_try_def catch_def
                generateSummary_def join_def toString_js_def toString_ai_def table_js_def
                scripted_def toString_topics_text_def or_else_def match_array_def)

end
